theory Spec2Isabelle
  imports Main "HOL-Library.Sublist"
begin

section \<open>Python values, exceptions and dictionaries\<close>

text \<open>
  The service (\<^verbatim>\<open>main.py\<close>) answers holiday queries from one JSON file per year.
  Everything it handles is a Python value: integers, strings, \<^verbatim>\<open>datetime.date\<close> objects,
  lists and dictionaries. Dictionaries keep insertion order, so they are association
  lists; a dictionary produced by \<^verbatim>\<open>json.load\<close> or by a dict display has distinct keys,
  and subscription \<^verbatim>\<open>d[k]\<close> is \<open>map_of\<close> with \<^verbatim>\<open>KeyError\<close> for a missing key.
\<close>

datatype date = Date (date_year: int) (date_month: int) (date_day: int)

datatype pyval =
    PNone
  | PBool bool
  | PInt int
  | PStr string
  | PDate date
  | PList "pyval list"
  | PDict "(string \<times> pyval) list"

type_synonym pydict = "(string \<times> pyval) list"

datatype exn =
    ValueError
  | TypeError
  | KeyError string
  | FileNotFoundError
  | HTTPException int string

definition then_do :: "exn + 'a \<Rightarrow> ('a \<Rightarrow> exn + 'b) \<Rightarrow> exn + 'b" where
  "then_do m f = (case m of Inl e \<Rightarrow> Inl e | Inr x \<Rightarrow> f x)"

definition getitem :: "pydict \<Rightarrow> string \<Rightarrow> exn + pyval" where
  "getitem d k = (case map_of d k of None \<Rightarrow> Inl (KeyError k) | Some v \<Rightarrow> Inr v)"

fun truthy :: "pyval \<Rightarrow> bool" where
  "truthy PNone = False"
| "truthy (PBool b) = b"
| "truthy (PInt n) = (n \<noteq> 0)"
| "truthy (PStr s) = (s \<noteq> [])"
| "truthy (PDate d) = True"
| "truthy (PList xs) = (xs \<noteq> [])"
| "truthy (PDict kvs) = (kvs \<noteq> [])"

section \<open>The calendar of \<^verbatim>\<open>datetime.date\<close>\<close>

text \<open>
  \<^verbatim>\<open>date(year, month, day)\<close> checks its fields and raises \<^verbatim>\<open>ValueError\<close> otherwise;
  the proleptic Gregorian ordinal, the weekday (Monday is 0) and the day of the year
  follow the standard library's \<^verbatim>\<open>_is_leap\<close>, \<^verbatim>\<open>_days_before_year\<close>,
  \<^verbatim>\<open>_days_in_month\<close>, \<^verbatim>\<open>_days_before_month\<close> and \<^verbatim>\<open>_ymd2ord\<close>.
\<close>

definition MINYEAR :: int where "MINYEAR = 1"
definition MAXYEAR :: int where "MAXYEAR = 9999"

definition is_leap :: "int \<Rightarrow> bool" where
  "is_leap year = (year mod 4 = 0 \<and> (year mod 100 \<noteq> 0 \<or> year mod 400 = 0))"

definition days_before_year :: "int \<Rightarrow> int" where
  "days_before_year year =
     (let y = year - 1 in y * 365 + y div 4 - y div 100 + y div 400)"

definition DAYS_IN_MONTH :: "int list" where
  "DAYS_IN_MONTH = [-1, 31, 28, 31, 30, 31, 30, 31, 31, 30, 31, 30, 31]"

definition DAYS_BEFORE_MONTH :: "int list" where
  "DAYS_BEFORE_MONTH = [-1, 0, 31, 59, 90, 120, 151, 181, 212, 243, 273, 304, 334]"

definition days_in_month :: "int \<Rightarrow> int \<Rightarrow> int" where
  "days_in_month year month =
     (if month = 2 \<and> is_leap year then 29 else DAYS_IN_MONTH ! nat month)"

definition days_before_month :: "int \<Rightarrow> int \<Rightarrow> int" where
  "days_before_month year month =
     DAYS_BEFORE_MONTH ! nat month + (if month > 2 \<and> is_leap year then 1 else 0)"

definition date_new :: "int \<Rightarrow> int \<Rightarrow> int \<Rightarrow> exn + date" where
  "date_new year month day =
     (if \<not> (MINYEAR \<le> year \<and> year \<le> MAXYEAR) then Inl ValueError
      else if \<not> (1 \<le> month \<and> month \<le> 12) then Inl ValueError
      else if \<not> (1 \<le> day \<and> day \<le> days_in_month year month) then Inl ValueError
      else Inr (Date year month day))"

definition toordinal :: "date \<Rightarrow> int" where
  "toordinal d =
     days_before_year (date_year d) + days_before_month (date_year d) (date_month d)
       + date_day d"

definition weekday :: "date \<Rightarrow> int" where
  "weekday d = (toordinal d + 6) mod 7"

definition yday :: "date \<Rightarrow> int" where
  "yday d = days_before_month (date_year d) (date_month d) + date_day d"

text \<open>Comparison of dates is the comparison of the tuples (year, month, day).\<close>

definition date_le :: "date \<Rightarrow> date \<Rightarrow> bool" where
  "date_le a b =
     (date_year a < date_year b
      \<or> (date_year a = date_year b
         \<and> (date_month a < date_month b
            \<or> (date_month a = date_month b \<and> date_day a \<le> date_day b))))"

subsection \<open>\<^verbatim>\<open>strftime\<close> with \<^verbatim>\<open>%A\<close>, \<^verbatim>\<open>%W\<close> and \<^verbatim>\<open>%B\<close>\<close>

text \<open>
  In the C locale \<^verbatim>\<open>%A\<close> is the English weekday name and \<^verbatim>\<open>%B\<close> the English month
  name. \<^verbatim>\<open>%W\<close> is computed by the C library from the zero-based day of the year and the
  weekday as \<^verbatim>\<open>(tm_yday + 7 - (tm_wday + 6) % 7) / 7\<close>, printed with two digits;
  \<^verbatim>\<open>(tm_wday + 6) % 7\<close> is the Monday-based weekday.
\<close>

definition day_names :: "string list" where
  "day_names = [''Monday'', ''Tuesday'', ''Wednesday'', ''Thursday'', ''Friday'',
                ''Saturday'', ''Sunday'']"

definition month_names :: "string list" where
  "month_names = [''January'', ''February'', ''March'', ''April'', ''May'', ''June'',
                  ''July'', ''August'', ''September'', ''October'', ''November'',
                  ''December'']"

definition week_number :: "date \<Rightarrow> int" where
  "week_number d = (yday d - 1 + 7 - weekday d) div 7"

definition two_digits :: "int \<Rightarrow> string" where
  "two_digits n = [''0123456789'' ! nat (n div 10), ''0123456789'' ! nat (n mod 10)]"

definition strftime_A :: "date \<Rightarrow> string" where
  "strftime_A d = day_names ! nat (weekday d)"

definition strftime_W :: "date \<Rightarrow> string" where
  "strftime_W d = two_digits (week_number d)"

definition strftime_B :: "date \<Rightarrow> string" where
  "strftime_B d = month_names ! nat (date_month d - 1)"

subsection \<open>\<^verbatim>\<open>datetime.strptime\<close> with the format \<^verbatim>\<open>%Y-%m-%d\<close>\<close>

text \<open>
  The library turns the format into the regular expression
  \<^verbatim>\<open>(?P<Y>\d\d\d\d)-(?P<m>1[0-2]|0[1-9]|[1-9])-(?P<d>3[0-1]|[1-2]\d|0[1-9]|[1-9]| [1-9])\<close>,
  matches it at the start of the string, raises \<^verbatim>\<open>ValueError\<close> when it does not match or
  when text remains after the match, converts the groups with \<^verbatim>\<open>int\<close> and builds the
  date, which raises \<^verbatim>\<open>ValueError\<close> for a day the month does not have. An alternation
  tries its branches from left to right; each function below lists the branches that
  match, in that order, as pairs of the matched text and the rest. Strings are ASCII.
\<close>

definition is_digit :: "char \<Rightarrow> bool" where
  "is_digit c = (c \<in> set ''0123456789'')"

definition digit_val :: "char \<Rightarrow> int" where
  "digit_val c = int (of_char c) - 48"

text \<open>\<^verbatim>\<open>int(s)\<close> on a matched group: decimal digits after optional blanks.\<close>

definition py_int :: "string \<Rightarrow> int" where
  "py_int s = foldl (\<lambda>acc c. 10 * acc + digit_val c) 0 (filter is_digit s)"

definition match_Y :: "string \<Rightarrow> (string \<times> string) list" where
  "match_Y s =
     (case s of
        a # b # c # d # rest \<Rightarrow>
          if is_digit a \<and> is_digit b \<and> is_digit c \<and> is_digit d
          then [([a, b, c, d], rest)] else []
      | _ \<Rightarrow> [])"

definition match_lit :: "char \<Rightarrow> string \<Rightarrow> string option" where
  "match_lit c s = (case s of x # rest \<Rightarrow> if x = c then Some rest else None | [] \<Rightarrow> None)"

definition match_2 :: "char set \<Rightarrow> char set \<Rightarrow> string \<Rightarrow> (string \<times> string) list" where
  "match_2 A B s =
     (case s of
        a # b # rest \<Rightarrow> if a \<in> A \<and> b \<in> B then [([a, b], rest)] else []
      | _ \<Rightarrow> [])"

definition match_1 :: "char set \<Rightarrow> string \<Rightarrow> (string \<times> string) list" where
  "match_1 A s = (case s of a # rest \<Rightarrow> if a \<in> A then [([a], rest)] else [] | [] \<Rightarrow> [])"

definition match_m :: "string \<Rightarrow> (string \<times> string) list" where
  "match_m s =
     match_2 (set ''1'') (set ''012'') s
     @ match_2 (set ''0'') (set ''123456789'') s
     @ match_1 (set ''123456789'') s"

definition match_d :: "string \<Rightarrow> (string \<times> string) list" where
  "match_d s =
     match_2 (set ''3'') (set ''01'') s
     @ match_2 (set ''12'') (set ''0123456789'') s
     @ match_2 (set ''0'') (set ''123456789'') s
     @ match_1 (set ''123456789'') s
     @ match_2 (set '' '') (set ''123456789'') s"

fun first_some :: "('a \<Rightarrow> 'b option) \<Rightarrow> 'a list \<Rightarrow> 'b option" where
  "first_some f [] = None"
| "first_some f (x # xs) = (case f x of Some y \<Rightarrow> Some y | None \<Rightarrow> first_some f xs)"

text \<open>
  The match of the whole expression: the groups \<open>Y\<close>, \<open>m\<close>, \<open>d\<close> and the text after the
  match. The day group is last, so its first matching branch ends the match; a month
  branch after which the rest does not match is given up for the next one.
\<close>

definition regex_match :: "string \<Rightarrow> (string \<times> string \<times> string \<times> string) option" where
  "regex_match s =
     first_some (\<lambda>(Y, r1).
       case match_lit CHR ''-'' r1 of
         None \<Rightarrow> None
       | Some r2 \<Rightarrow>
           first_some (\<lambda>(m, r3).
             case match_lit CHR ''-'' r3 of
               None \<Rightarrow> None
             | Some r4 \<Rightarrow>
                 (case match_d r4 of
                    [] \<Rightarrow> None
                  | (d, r5) # _ \<Rightarrow> Some (Y, m, d, r5)))
             (match_m r2))
       (match_Y s)"

definition strptime :: "pyval \<Rightarrow> exn + date" where
  "strptime v =
     (case v of
        PStr s \<Rightarrow>
          (case regex_match s of
             None \<Rightarrow> Inl ValueError
           | Some (Y, m, d, rest) \<Rightarrow>
               if rest \<noteq> [] then Inl ValueError
               else date_new (py_int Y) (py_int m) (py_int d))
      | _ \<Rightarrow> Inl TypeError)"

section \<open>The dataset store\<close>

text \<open>
  The file \<^verbatim>\<open>json/{year}.json\<close> holds the year's records, a JSON array of objects with
  the keys \<^verbatim>\<open>uid\<close>, \<^verbatim>\<open>summary\<close>, \<^verbatim>\<open>start\<close>, \<^verbatim>\<open>end\<close> and \<^verbatim>\<open>categories\<close>. The store maps a
  year to the parsed content of its file, if the file exists.
\<close>

type_synonym store = "int \<Rightarrow> pydict list option"

definition isfile :: "store \<Rightarrow> int \<Rightarrow> bool" where
  "isfile st year = (st year \<noteq> None)"

definition json_load :: "store \<Rightarrow> int \<Rightarrow> exn + pydict list" where
  "json_load st year =
     (case st year of None \<Rightarrow> Inl FileNotFoundError | Some holiday_data \<Rightarrow> Inr holiday_data)"

section \<open>The endpoints\<close>

text \<open>
  An endpoint answers with a status code and a body; the framework's status is 200
  unless the handler sets \<^verbatim>\<open>response.status_code\<close>, and an exception that leaves the
  handler is the \<open>Inl\<close> result. The handlers are modelled on the integers that the
  framework has parsed; its range checks on them (year 2000 to 3000, month 1 to 12, day
  1 to 31) run before the handler and are not part of it. The \<^verbatim>\<open>response\<close> object the
  framework passes in is always true in \<^verbatim>\<open>if response:\<close>, so the status is always set.
\<close>

record response =
  status_code :: int
  content :: pyval

abbreviation HTTP_200_OK :: int where "HTTP_200_OK \<equiv> 200"
abbreviation HTTP_400_BAD_REQUEST :: int where "HTTP_400_BAD_REQUEST \<equiv> 400"
abbreviation HTTP_404_NOT_FOUND :: int where "HTTP_404_NOT_FOUND \<equiv> 404"

definition api_coverage_year :: "store \<Rightarrow> int \<Rightarrow> response" where
  "api_coverage_year st year =
     (if isfile st year
      then \<lparr>status_code = HTTP_200_OK,
            content = PDict [(''year'', PInt year), (''coverage'', PStr ''ok'')]\<rparr>
      else \<lparr>status_code = HTTP_200_OK,
            content = PDict [(''year'', PInt year),
                             (''coverage'', PStr ''data not available'')]\<rparr>)"

subsection \<open>\<^verbatim>\<open>get_holiday_info\<close>\<close>

text \<open>
  One pass of the loop over \<^verbatim>\<open>holiday_data\<close>: \<open>Some\<close> of the returned triple when the
  record's range contains the date, \<open>None\<close> when the loop goes on.
\<close>

definition holiday_match :: "date \<Rightarrow> pydict \<Rightarrow> exn + (pyval \<times> int \<times> pydict) option" where
  "holiday_match date_to_check holiday =
     then_do (getitem holiday ''start'') (\<lambda>s.
     then_do (strptime s) (\<lambda>start_date.
     then_do (getitem holiday ''end'') (\<lambda>e.
     then_do (strptime e) (\<lambda>end_date.
       if date_le start_date date_to_check \<and> date_le date_to_check end_date
       then
         then_do (getitem holiday ''uid'') (\<lambda>uid.
         then_do (getitem holiday ''summary'') (\<lambda>summary.
         then_do (getitem holiday ''categories'') (\<lambda>categories.
         then_do (getitem holiday ''start'') (\<lambda>holiday_start.
         then_do (getitem holiday ''end'') (\<lambda>holiday_end.
           Inr (Some (PDate date_to_check, HTTP_200_OK,
             [(''day'', PStr (strftime_A date_to_check)),
              (''week'', PStr (strftime_W date_to_check)),
              (''month'', PStr (strftime_B date_to_check)),
              (''is_holiday'', PBool True),
              (''id'', uid),
              (''holiday'', summary),
              (''categories'', categories),
              (''holiday_start'', holiday_start),
              (''holiday_end'', holiday_end)])))))))
       else Inr None))))"

fun scan_holidays :: "date \<Rightarrow> pydict list \<Rightarrow> exn + (pyval \<times> int \<times> pydict)" where
  "scan_holidays date_to_check [] =
     Inr (PDate date_to_check, HTTP_200_OK, [(''is_holiday'', PBool False)])"
| "scan_holidays date_to_check (holiday # rest) =
     (case holiday_match date_to_check holiday of
        Inl e \<Rightarrow> Inl e
      | Inr (Some r) \<Rightarrow> Inr r
      | Inr None \<Rightarrow> scan_holidays date_to_check rest)"

definition get_holiday_info :: "store \<Rightarrow> int \<Rightarrow> int \<Rightarrow> int \<Rightarrow> exn + (pyval \<times> int \<times> pydict)" where
  "get_holiday_info st year month day =
     (case date_new year month day of
        Inl e \<Rightarrow>
          if e = ValueError \<or> e = TypeError
          then Inr (PNone, HTTP_400_BAD_REQUEST, [(''error'', PStr ''invalid date'')])
          else Inl e
      | Inr date_to_check \<Rightarrow>
          if \<not> isfile st year
          then Inr (PDate date_to_check, HTTP_404_NOT_FOUND,
                    [(''error'', PStr ''requested year not available'')])
          else then_do (json_load st year) (scan_holidays date_to_check))"

subsection \<open>\<^verbatim>\<open>check_holiday\<close> and \<^verbatim>\<open>holiday_info\<close>\<close>

definition check_holiday :: "store \<Rightarrow> int \<Rightarrow> int \<Rightarrow> int \<Rightarrow> exn + response" where
  "check_holiday st year month day =
     then_do (get_holiday_info st year month day) (\<lambda>(date_provided, status_code, result).
       if status_code \<noteq> HTTP_200_OK
       then Inr \<lparr>status_code = status_code, content = PDict [(''response'', PDict result)]\<rparr>
       else
         then_do (getitem result ''is_holiday'') (\<lambda>is_holiday.
           if truthy is_holiday
           then Inr \<lparr>status_code = status_code, content = PDict result\<rparr>
           else Inr \<lparr>status_code = status_code,
                     content = PDict [(''date'', date_provided),
                                      (''response'', PBool False)]\<rparr>))"

definition holiday_info :: "store \<Rightarrow> int \<Rightarrow> int \<Rightarrow> int \<Rightarrow> exn + response" where
  "holiday_info st year month day =
     then_do (get_holiday_info st year month day) (\<lambda>(date_provided, status_code, result).
       Inr \<lparr>status_code = status_code,
            content = PDict [(''date'', date_provided), (''response'', PDict result)]\<rparr>)"

subsection \<open>\<^verbatim>\<open>holidays_list\<close>\<close>

text \<open>The list comprehension: every record's start is parsed, in dataset order.\<close>

fun holidays_in_month :: "pydict list \<Rightarrow> int \<Rightarrow> exn + pydict list" where
  "holidays_in_month [] month = Inr []"
| "holidays_in_month (holiday # rest) month =
     then_do (getitem holiday ''start'') (\<lambda>s.
     then_do (strptime s) (\<lambda>start.
     then_do (holidays_in_month rest month) (\<lambda>others.
       Inr (if date_month start = month then holiday # others else others))))"

definition holidays_list :: "store \<Rightarrow> int \<Rightarrow> int \<Rightarrow> exn + response" where
  "holidays_list st year month =
     (if \<not> isfile st year
      then Inl (HTTPException 404 ''Holiday data not available for the year'')
      else
        then_do (json_load st year) (\<lambda>holiday_data.
        then_do (holidays_in_month holiday_data month) (\<lambda>found.
          if found \<noteq> []
          then Inr \<lparr>status_code = HTTP_200_OK,
                    content = PDict [(''holidays'', PList (map PDict found))]\<rparr>
          else Inr \<lparr>status_code = HTTP_200_OK,
                    content = PDict [(''response'',
                                      PStr ''No holidays found for this month'')]\<rparr>)))"

subsection \<open>\<^verbatim>\<open>holidays_in_year\<close>\<close>

definition year_entry :: "pydict \<Rightarrow> exn + pyval" where
  "year_entry holiday =
     then_do (getitem holiday ''uid'') (\<lambda>uid.
     then_do (getitem holiday ''summary'') (\<lambda>summary.
     then_do (getitem holiday ''start'') (\<lambda>start.
     then_do (getitem holiday ''end'') (\<lambda>end.
     then_do (getitem holiday ''categories'') (\<lambda>categories.
       Inr (PDict [(''uid'', uid),
                   (''holiday'', summary),
                   (''start'', start),
                   (''end'', end),
                   (''categories'', categories)]))))))"

fun year_entries :: "pydict list \<Rightarrow> exn + pyval list" where
  "year_entries [] = Inr []"
| "year_entries (holiday # rest) =
     then_do (year_entry holiday) (\<lambda>x.
     then_do (year_entries rest) (\<lambda>xs. Inr (x # xs)))"

definition not_available :: "int \<Rightarrow> response" where
  "not_available year =
     \<lparr>status_code = HTTP_200_OK,
      content = PDict [(''year'', PInt year),
                       (''response'', PStr ''Data not available for this year.'')]\<rparr>"

definition holidays_in_year :: "store \<Rightarrow> int \<Rightarrow> exn + response" where
  "holidays_in_year st year =
     (if \<not> isfile st year then Inr (not_available year)
      else
        (case then_do (json_load st year) (\<lambda>holiday_data.
              then_do (year_entries holiday_data) (\<lambda>holidays.
                Inr \<lparr>status_code = HTTP_200_OK,
                     content = PDict [(''year'', PInt year),
                                      (''holidays'', PList holidays)]\<rparr>)) of
           Inl e \<Rightarrow> if e = FileNotFoundError then Inr (not_available year) else Inl e
         | Inr r \<Rightarrow> Inr r))"

section \<open>Notions of the specification\<close>

text \<open>
  A record is well formed when it has the five keys of the dataset format and its
  \<^verbatim>\<open>start\<close> and \<^verbatim>\<open>end\<close> are dates in the form the service parses. Its range covers a
  date when the date lies between the parsed start and end, both included.
\<close>

definition parsed :: "pydict \<Rightarrow> string \<Rightarrow> date option" where
  "parsed h k =
     (case map_of h k of
        None \<Rightarrow> None
      | Some v \<Rightarrow> (case strptime v of Inl e \<Rightarrow> None | Inr d \<Rightarrow> Some d))"

definition well_formed :: "pydict \<Rightarrow> bool" where
  "well_formed h =
     (parsed h ''start'' \<noteq> None \<and> parsed h ''end'' \<noteq> None \<and> map_of h ''uid'' \<noteq> None
      \<and> map_of h ''summary'' \<noteq> None \<and> map_of h ''categories'' \<noteq> None)"

definition covers :: "pydict \<Rightarrow> date \<Rightarrow> bool" where
  "covers h d =
     (case parsed h ''start'' of
        None \<Rightarrow> False
      | Some s \<Rightarrow>
          (case parsed h ''end'' of None \<Rightarrow> False | Some e \<Rightarrow> date_le s d \<and> date_le d e))"

definition starts_in :: "int \<Rightarrow> pydict \<Rightarrow> bool" where
  "starts_in month h =
     (case parsed h ''start'' of None \<Rightarrow> False | Some s \<Rightarrow> date_month s = month)"


text \<open>The year listing reads the five keys of a record and parses nothing.\<close>

definition has_fields :: "pydict \<Rightarrow> bool" where
  "has_fields h =
     (map_of h ''uid'' \<noteq> None \<and> map_of h ''summary'' \<noteq> None \<and> map_of h ''start'' \<noteq> None
      \<and> map_of h ''end'' \<noteq> None \<and> map_of h ''categories'' \<noteq> None)"

text \<open>A dataset for 2025 with two overlapping ranges, one of them spanning two months.\<close>

definition poya :: pydict where
  "poya = [(''uid'', PStr ''h0''), (''summary'', PStr ''Duruthu Poya''),
           (''start'', PStr ''2025-01-13''), (''end'', PStr ''2025-01-13''),
           (''categories'', PList [PStr ''public'', PStr ''bank''])]"

definition new_year :: pydict where
  "new_year = [(''uid'', PStr ''h1''), (''summary'', PStr ''New Year''),
               (''start'', PStr ''2025-01-01''), (''end'', PStr ''2025-01-01''),
               (''categories'', PList [PStr ''public''])]"

definition festival :: pydict where
  "festival = [(''uid'', PStr ''h2''), (''summary'', PStr ''Festival season''),
               (''start'', PStr ''2025-01-01''), (''end'', PStr ''2025-02-02''),
               (''categories'', PList [])]"

definition data_2025 :: "pydict list" where
  "data_2025 = [poya, new_year, festival]"

definition example_store :: store where
  "example_store = (\<lambda>year. if year = 2025 then Some data_2025
                            else if year = 2026 then Some [] else None)"

text \<open>
  A dataset for 2024 with a record in January, stored with its keys in another order,
  and a record in March.
\<close>

definition thai_pongal :: pydict where
  "thai_pongal = [(''summary'', PStr ''Thai Pongal''), (''uid'', PStr ''p1''),
                  (''categories'', PList [PStr ''public'']),
                  (''end'', PStr ''2024-01-15''), (''start'', PStr ''2024-01-15'')]"

definition maha_sivarathri :: pydict where
  "maha_sivarathri = [(''uid'', PStr ''p2''), (''summary'', PStr ''Maha Sivarathri''),
                      (''start'', PStr ''2024-03-08''), (''end'', PStr ''2024-03-08''),
                      (''categories'', PList [PStr ''public'', PStr ''bank''])]"

definition data_2024 :: "pydict list" where
  "data_2024 = [maha_sivarathri, thai_pongal]"

definition store_2024 :: store where
  "store_2024 = (\<lambda>year. if year = 2024 then Some data_2024 else None)"

section \<open>Auxiliary facts\<close>

lemma then_do_Inr [simp]: "then_do (Inr x) f = f x"
  by (simp add: then_do_def)

lemma then_do_Inl [simp]: "then_do (Inl e) f = Inl e"
  by (simp add: then_do_def)

lemma getitem_Some: "map_of h k = Some v \<Longrightarrow> getitem h k = Inr v"
  by (simp add: getitem_def)

lemma parsedD:
  assumes "parsed h k = Some d"
  obtains v where "map_of h k = Some v" and "strptime v = Inr d"
  using assms by (auto simp: parsed_def split: option.splits sum.splits)

lemma holiday_match_miss:
  assumes "well_formed h" and "\<not> covers h d"
  shows "holiday_match d h = Inr None"
proof -
  from assms(1) obtain sd ed where p: "parsed h ''start'' = Some sd" "parsed h ''end'' = Some ed"
    by (auto simp: well_formed_def)
  from p obtain s e where
    v: "map_of h ''start'' = Some s" "strptime s = Inr sd"
       "map_of h ''end'' = Some e" "strptime e = Inr ed"
    by (auto elim!: parsedD)
  from assms(2) p have "\<not> (date_le sd d \<and> date_le d ed)"
    by (simp add: covers_def)
  with v show ?thesis
    by (auto simp add: holiday_match_def getitem_Some)
qed

lemma holiday_match_hit:
  assumes "well_formed h" and "covers h d"
  shows "\<exists>uid summary categories s e.
           map_of h ''uid'' = Some uid \<and> map_of h ''summary'' = Some summary
         \<and> map_of h ''categories'' = Some categories
         \<and> map_of h ''start'' = Some s \<and> map_of h ''end'' = Some e
         \<and> holiday_match d h =
             Inr (Some (PDate d, 200,
               [(''day'', PStr (strftime_A d)), (''week'', PStr (strftime_W d)),
                (''month'', PStr (strftime_B d)), (''is_holiday'', PBool True),
                (''id'', uid), (''holiday'', summary), (''categories'', categories),
                (''holiday_start'', s), (''holiday_end'', e)]))"
proof -
  from assms(1) obtain sd ed u sm c where
    p: "parsed h ''start'' = Some sd" "parsed h ''end'' = Some ed" and
    k: "map_of h ''uid'' = Some u" "map_of h ''summary'' = Some sm"
       "map_of h ''categories'' = Some c"
    by (auto simp: well_formed_def)
  from p obtain s e where
    v: "map_of h ''start'' = Some s" "strptime s = Inr sd"
       "map_of h ''end'' = Some e" "strptime e = Inr ed"
    by (auto elim!: parsedD)
  from assms(2) p have "date_le sd d \<and> date_le d ed"
    by (simp add: covers_def)
  with v k show ?thesis
    by (simp add: holiday_match_def getitem_Some)
qed

lemma scan_skip:
  assumes "\<forall>h\<in>set pre. well_formed h \<and> \<not> covers h d"
  shows "scan_holidays d (pre @ rest) = scan_holidays d rest"
  using assms by (induction pre) (simp_all add: holiday_match_miss)

lemma scan_none:
  assumes "\<forall>h\<in>set ds. well_formed h \<and> \<not> covers h d"
  shows "scan_holidays d ds = Inr (PDate d, 200, [(''is_holiday'', PBool False)])"
  using scan_skip [OF assms, of "[]"] by simp

lemma scan_first:
  assumes wf: "\<forall>h\<in>set ds. well_formed h"
    and i: "i < length ds" and c: "covers (ds ! i) d"
    and first: "\<forall>j<i. \<not> covers (ds ! j) d"
  shows "\<exists>uid summary categories s e.
           map_of (ds ! i) ''uid'' = Some uid \<and> map_of (ds ! i) ''summary'' = Some summary
         \<and> map_of (ds ! i) ''categories'' = Some categories
         \<and> map_of (ds ! i) ''start'' = Some s \<and> map_of (ds ! i) ''end'' = Some e
         \<and> scan_holidays d ds =
             Inr (PDate d, 200,
               [(''day'', PStr (strftime_A d)), (''week'', PStr (strftime_W d)),
                (''month'', PStr (strftime_B d)), (''is_holiday'', PBool True),
                (''id'', uid), (''holiday'', summary), (''categories'', categories),
                (''holiday_start'', s), (''holiday_end'', e)])"
proof -
  have split: "ds = take i ds @ ds ! i # drop (Suc i) ds"
    using i by (rule id_take_nth_drop)
  have pre: "\<forall>h\<in>set (take i ds). well_formed h \<and> \<not> covers h d"
  proof
    fix h assume "h \<in> set (take i ds)"
    then obtain j where j: "j < i" "h = ds ! j"
      using i by (auto simp: in_set_conv_nth)
    with first wf i show "well_formed h \<and> \<not> covers h d"
      by auto
  qed
  have wfi: "well_formed (ds ! i)"
    using wf i by simp
  have "scan_holidays d ds = scan_holidays d (ds ! i # drop (Suc i) ds)"
    using scan_skip [OF pre, of "ds ! i # drop (Suc i) ds"] split by simp
  with holiday_match_hit [OF wfi c, of] show ?thesis
    by auto
qed

lemma get_holiday_info_scan:
  assumes "date_new year month day = Inr d" and "st year = Some ds"
  shows "get_holiday_info st year month day = scan_holidays d ds"
  using assms by (simp add: get_holiday_info_def isfile_def json_load_def)

lemma date_new_cases:
  "date_new year month day = Inl ValueError \<or> date_new year month day = Inr (Date year month day)"
  by (simp add: date_new_def)

lemma holiday_match_status:
  assumes "holiday_match d h = Inr (Some (dp, sc, r))"
  shows "sc = 200"
  using assms
  by (auto simp: holiday_match_def then_do_def split: sum.splits if_splits)

lemma scan_holidays_status:
  assumes "scan_holidays d ds = Inr (dp, sc, r)"
  shows "sc = 200"
  using assms
proof (induction ds)
  case Nil
  then show ?case by simp
next
  case (Cons h ds)
  then show ?case
    by (auto split: sum.splits option.splits dest: holiday_match_status)
qed

lemma get_holiday_info_invalid:
  assumes "date_new year month day = Inl ValueError"
  shows "get_holiday_info st year month day
           = Inr (PNone, 400, [(''error'', PStr ''invalid date'')])"
  using assms by (simp add: get_holiday_info_def)

lemma get_holiday_info_no_year:
  assumes "date_new year month day = Inr d" and "st year = None"
  shows "get_holiday_info st year month day
           = Inr (PDate d, 404, [(''error'', PStr ''requested year not available'')])"
  using assms by (simp add: get_holiday_info_def isfile_def)

lemma holidays_in_month_filter:
  assumes "\<forall>h\<in>set ds. parsed h ''start'' \<noteq> None"
  shows "holidays_in_month ds month = Inr (filter (starts_in month) ds)"
  using assms
proof (induction ds)
  case Nil
  then show ?case by simp
next
  case (Cons h ds)
  then obtain sd where p: "parsed h ''start'' = Some sd"
    by auto
  then obtain s where v: "map_of h ''start'' = Some s" "strptime s = Inr sd"
    by (auto elim!: parsedD)
  from Cons have rest: "holidays_in_month ds month = Inr (filter (starts_in month) ds)"
    by simp
  from p have "starts_in month h \<longleftrightarrow> date_month sd = month"
    by (simp add: starts_in_def)
  with v rest show ?case
    by (simp add: getitem_Some)
qed

lemma year_entry_fields:
  assumes "has_fields h"
  shows "\<exists>uid summary s e c.
           map_of h ''uid'' = Some uid \<and> map_of h ''summary'' = Some summary
         \<and> map_of h ''start'' = Some s \<and> map_of h ''end'' = Some e
         \<and> map_of h ''categories'' = Some c
         \<and> year_entry h = Inr (PDict [(''uid'', uid), (''holiday'', summary),
                                        (''start'', s), (''end'', e), (''categories'', c)])"
proof -
  from assms obtain uid summary s e c where
    "map_of h ''uid'' = Some uid" "map_of h ''summary'' = Some summary"
    "map_of h ''start'' = Some s" "map_of h ''end'' = Some e"
    "map_of h ''categories'' = Some c"
    by (auto simp: has_fields_def)
  then show ?thesis
    by (simp add: year_entry_def getitem_Some)
qed

lemma year_entries_all:
  assumes "\<forall>h\<in>set ds. has_fields h"
  shows "\<exists>out. year_entries ds = Inr out
             \<and> list_all2 (\<lambda>h x. year_entry h = Inr x) ds out"
  using assms
proof (induction ds)
  case Nil
  then show ?case by simp
next
  case (Cons h ds)
  then obtain out where out: "year_entries ds = Inr out"
      "list_all2 (\<lambda>h x. year_entry h = Inr x) ds out"
    by auto
  from Cons.prems have "has_fields h" by simp
  from year_entry_fields [OF this] obtain x where "year_entry h = Inr x"
    by blast
  with out show ?case by simp
qed

lemma check_holiday_error:
  assumes "get_holiday_info st year month day = Inr (dp, sc, r)" and "sc \<noteq> 200"
  shows "check_holiday st year month day
           = Inr \<lparr>status_code = sc, content = PDict [(''response'', PDict r)]\<rparr>"
  using assms by (simp add: check_holiday_def)

lemma check_holiday_ok:
  assumes "get_holiday_info st year month day = Inr (dp, 200, r)"
    and "map_of r ''is_holiday'' = Some (PBool b)"
  shows "check_holiday st year month day
           = Inr \<lparr>status_code = 200,
                  content = (if b then PDict r
                             else PDict [(''date'', dp), (''response'', PBool False)])\<rparr>"
  using assms by (simp add: check_holiday_def getitem_Some)























lemma year_entry_renames:
  assumes "year_entry h = Inr x"
  shows "\<exists>r. x = PDict r \<and> map_of r ''holiday'' \<noteq> None"
  using assms
  by (auto simp: year_entry_def then_do_def split: sum.splits)

lemma holiday_match_derives:
  assumes "holiday_match d h = Inr (Some (dp, sc, r))"
  shows "map_of r ''is_holiday'' = Some (PBool True)"
  using assms
  by (auto simp: holiday_match_def then_do_def split: sum.splits if_splits)

section \<open>Date resolution\<close>

text \<open>
  Claim C1. For a valid calendar date \<open>d\<close> in a year whose dataset exists and holds
  well-formed records, \<^verbatim>\<open>get_holiday_info\<close> scans the records in dataset order: if record
  \<open>i\<close> covers \<open>d\<close> (start and end both included) and no earlier record does, the
  outcome is a holiday with status 200 whose id is the uid of record \<open>i\<close>, also when
  later records cover \<open>d\<close> too; if no record covers \<open>d\<close>, the outcome is
  \<^verbatim>\<open>{"is_holiday": False}\<close> with status 200.
\<close>

theorem get_holiday_info_first_match:
  assumes "date_new year month day = Inr d" and "st year = Some ds"
    and "\<forall>h\<in>set ds. well_formed h"
  shows "(\<forall>i<length ds. covers (ds ! i) d \<and> (\<forall>j<i. \<not> covers (ds ! j) d) \<longrightarrow>
            (\<exists>r. get_holiday_info st year month day = Inr (PDate d, 200, r)
               \<and> map_of r ''is_holiday'' = Some (PBool True)
               \<and> map_of r ''id'' = map_of (ds ! i) ''uid''))
       \<and> ((\<forall>i<length ds. \<not> covers (ds ! i) d) \<longrightarrow>
            get_holiday_info st year month day
              = Inr (PDate d, 200, [(''is_holiday'', PBool False)]))"
proof (intro conjI allI impI)
  have g: "get_holiday_info st year month day = scan_holidays d ds"
    using assms(1,2) by (rule get_holiday_info_scan)
  fix i
  assume i: "i < length ds" and c: "covers (ds ! i) d \<and> (\<forall>j<i. \<not> covers (ds ! j) d)"
  from scan_first [OF assms(3) i] c obtain uid summary categories s e where
    "map_of (ds ! i) ''uid'' = Some uid" and
    "scan_holidays d ds =
       Inr (PDate d, 200,
         [(''day'', PStr (strftime_A d)), (''week'', PStr (strftime_W d)),
          (''month'', PStr (strftime_B d)), (''is_holiday'', PBool True),
          (''id'', uid), (''holiday'', summary), (''categories'', categories),
          (''holiday_start'', s), (''holiday_end'', e)])"
    by blast
  then show "\<exists>r. get_holiday_info st year month day = Inr (PDate d, 200, r)
               \<and> map_of r ''is_holiday'' = Some (PBool True)
               \<and> map_of r ''id'' = map_of (ds ! i) ''uid''"
    by (simp add: g)
next
  have g: "get_holiday_info st year month day = scan_holidays d ds"
    using assms(1,2) by (rule get_holiday_info_scan)
  assume "\<forall>i<length ds. \<not> covers (ds ! i) d"
  then have "\<forall>h\<in>set ds. well_formed h \<and> \<not> covers h d"
    using assms(3) by (auto simp: in_set_conv_nth)
  then show "get_holiday_info st year month day
              = Inr (PDate d, 200, [(''is_holiday'', PBool False)])"
    by (simp add: g scan_none)
qed

text \<open>
  The dataset of 2025 at 1 January, which its second and third record both cover, and
  at 3 March, which no record covers.
\<close>

theorem get_holiday_info_first_match_witness:
  "date_new 2025 1 1 = Inr (Date 2025 1 1)
   \<and> example_store 2025 = Some data_2025
   \<and> list_all well_formed data_2025
   \<and> \<not> covers (data_2025 ! 0) (Date 2025 1 1)
   \<and> covers (data_2025 ! 1) (Date 2025 1 1)
   \<and> covers (data_2025 ! 2) (Date 2025 1 1)
   \<and> (\<exists>r. get_holiday_info example_store 2025 1 1 = Inr (PDate (Date 2025 1 1), 200, r)
          \<and> map_of r ''is_holiday'' = Some (PBool True)
          \<and> map_of r ''id'' = Some (PStr ''h1''))
   \<and> date_new 2025 3 3 = Inr (Date 2025 3 3)
   \<and> list_all (\<lambda>h. \<not> covers h (Date 2025 3 3)) data_2025
   \<and> get_holiday_info example_store 2025 3 3
       = Inr (PDate (Date 2025 3 3), 200, [(''is_holiday'', PBool False)])"
proof -
  have d1: "date_new 2025 1 1 = Inr (Date 2025 1 1)" by code_simp
  have d2: "date_new 2025 3 3 = Inr (Date 2025 3 3)" by code_simp
  have s: "example_store 2025 = Some data_2025" by code_simp
  have wfl: "list_all well_formed data_2025" by code_simp
  then have wf: "\<forall>h\<in>set data_2025. well_formed h" by (simp add: list_all_iff)
  have c0: "\<not> covers (data_2025 ! 0) (Date 2025 1 1)" by code_simp
  have c1: "covers (data_2025 ! 1) (Date 2025 1 1)" by code_simp
  have c2: "covers (data_2025 ! 2) (Date 2025 1 1)" by code_simp
  have nl: "list_all (\<lambda>h. \<not> covers h (Date 2025 3 3)) data_2025" by code_simp
  then have n: "\<forall>i<length data_2025. \<not> covers (data_2025 ! i) (Date 2025 3 3)"
    by (simp add: list_all_length)
  have u: "map_of (data_2025 ! 1) ''uid'' = Some (PStr ''h1'')" by code_simp
  have l: "(1::nat) < length data_2025" by code_simp
  have first: "\<forall>j<(1::nat). \<not> covers (data_2025 ! j) (Date 2025 1 1)"
    using c0 by simp
  note hit = get_holiday_info_first_match [of 2025 1 1 "Date 2025 1 1" example_store data_2025,
      OF d1 s wf, THEN conjunct1, rule_format, of 1, OF l conjI [OF c1 first]]
  note miss = get_holiday_info_first_match [of 2025 3 3 "Date 2025 3 3" example_store data_2025,
      OF d2 s wf, THEN conjunct2, rule_format, OF n [rule_format]]
  show ?thesis
    using d1 d2 s wfl c0 c1 c2 nl hit miss u by simp
qed

text \<open>
  Claim C2. Whatever the store holds, a triple that \<^verbatim>\<open>date\<close> rejects gets the invalid-date
  outcome with status 400 and no date; the outcome with status 404 is returned exactly
  when the triple is a calendar date and the year has no dataset. The calendar check
  comes before the lookup of the year.
\<close>

theorem invalid_date_before_year_lookup:
  "(date_new year month day = Inl ValueError \<longrightarrow>
      get_holiday_info st year month day
        = Inr (PNone, 400, [(''error'', PStr ''invalid date'')]))
   \<and> ((\<exists>dp r. get_holiday_info st year month day = Inr (dp, 404, r))
        \<longleftrightarrow> (\<exists>d. date_new year month day = Inr d) \<and> st year = None)"
proof (intro conjI impI iffI)
  assume "date_new year month day = Inl ValueError"
  then show "get_holiday_info st year month day
               = Inr (PNone, 400, [(''error'', PStr ''invalid date'')])"
    by (rule get_holiday_info_invalid)
next
  assume a: "\<exists>dp r. get_holiday_info st year month day = Inr (dp, 404, r)"
  then obtain dp r where g: "get_holiday_info st year month day = Inr (dp, 404, r)"
    by blast
  have v: "date_new year month day = Inr (Date year month day)"
  proof (rule ccontr)
    assume "date_new year month day \<noteq> Inr (Date year month day)"
    with date_new_cases [of year month day]
    have "date_new year month day = Inl ValueError" by blast
    from get_holiday_info_invalid [where st = st, OF this] g show False by simp
  qed
  then show "\<exists>d. date_new year month day = Inr d" by blast
  show "st year = None"
  proof (cases "st year")
    case None
    then show ?thesis .
  next
    case (Some ds)
    have "get_holiday_info st year month day = scan_holidays (Date year month day) ds"
      using v Some by (rule get_holiday_info_scan)
    with g have "scan_holidays (Date year month day) ds = Inr (dp, 404, r)" by simp
    from scan_holidays_status [OF this] show ?thesis by simp
  qed
next
  assume "(\<exists>d. date_new year month day = Inr d) \<and> st year = None"
  then obtain d where "date_new year month day = Inr d" and "st year = None" by blast
  from get_holiday_info_no_year [where st = st, OF this]
  show "\<exists>dp r. get_holiday_info st year month day = Inr (dp, 404, r)" by blast
qed

text \<open>30 February and 3 February 2050, a year without a dataset.\<close>

theorem invalid_date_before_year_lookup_witness:
  "date_new 2050 2 30 = Inl ValueError
   \<and> example_store 2050 = None
   \<and> get_holiday_info example_store 2050 2 30
       = Inr (PNone, 400, [(''error'', PStr ''invalid date'')])
   \<and> date_new 2050 2 3 = Inr (Date 2050 2 3)
   \<and> (\<exists>dp r. get_holiday_info example_store 2050 2 3 = Inr (dp, 404, r))"
proof -
  have i: "date_new 2050 2 30 = Inl ValueError" by code_simp
  have v: "date_new 2050 2 3 = Inr (Date 2050 2 3)" by code_simp
  have n: "example_store 2050 = None" by code_simp
  note a = invalid_date_before_year_lookup [where year = 2050 and month = 2 and day = 30
      and st = example_store, THEN conjunct1, rule_format, OF i]
  have "(\<exists>d. date_new 2050 2 3 = Inr d) \<and> example_store 2050 = None"
    using v n by simp
  then have b: "\<exists>dp r. get_holiday_info example_store 2050 2 3 = Inr (dp, 404, r)"
    using invalid_date_before_year_lookup [where year = 2050 and month = 2 and day = 3
      and st = example_store, THEN conjunct2]
    by simp
  show ?thesis using i v n a b by simp
qed

subsection \<open>A year without a dataset\<close>

text \<open>
  Claim C3. For a year without a dataset the coverage endpoint answers normally with the
  flag \<^verbatim>\<open>data not available\<close>, the month listing raises the HTTP exception with status
  404, and the year listing answers normally, status 200, with the year and the text
  \<^verbatim>\<open>Data not available for this year.\<close>
\<close>

theorem missing_year_three_policies:
  assumes "st year = None"
  shows "api_coverage_year st year
           = \<lparr>status_code = 200,
              content = PDict [(''year'', PInt year),
                               (''coverage'', PStr ''data not available'')]\<rparr>
       \<and> holidays_list st year month
           = Inl (HTTPException 404 ''Holiday data not available for the year'')
       \<and> holidays_in_year st year
           = Inr \<lparr>status_code = 200,
                  content = PDict [(''year'', PInt year),
                                   (''response'',
                                    PStr ''Data not available for this year.'')]\<rparr>"
  using assms
  by (simp add: api_coverage_year_def holidays_list_def holidays_in_year_def isfile_def
      not_available_def)

text \<open>The three endpoints at 2050, for which the example store has no dataset.\<close>

theorem missing_year_three_policies_witness:
  "example_store 2050 = None
   \<and> api_coverage_year example_store 2050
       = \<lparr>status_code = 200,
          content = PDict [(''year'', PInt 2050),
                           (''coverage'', PStr ''data not available'')]\<rparr>
   \<and> holidays_list example_store 2050 7
       = Inl (HTTPException 404 ''Holiday data not available for the year'')
   \<and> holidays_in_year example_store 2050
       = Inr \<lparr>status_code = 200,
              content = PDict [(''year'', PInt 2050),
                               (''response'',
                                PStr ''Data not available for this year.'')]\<rparr>"
proof -
  have n: "example_store 2050 = None" by code_simp
  from missing_year_three_policies [where st = example_store and month = 7, OF n] n
  show ?thesis by simp
qed

subsection \<open>Coverage\<close>

text \<open>
  Claim C6. The coverage endpoint answers \<^verbatim>\<open>{"year": year, "coverage": "ok"}\<close> exactly
  when the store has a dataset for the year, whatever it holds, and
  \<^verbatim>\<open>{"year": year, "coverage": "data not available"}\<close> exactly when it has none.
\<close>

theorem coverage_iff_dataset:
  "(api_coverage_year st year
      = \<lparr>status_code = 200,
         content = PDict [(''year'', PInt year), (''coverage'', PStr ''ok'')]\<rparr>
    \<longleftrightarrow> st year \<noteq> None)
   \<and> (api_coverage_year st year
      = \<lparr>status_code = 200,
         content = PDict [(''year'', PInt year),
                          (''coverage'', PStr ''data not available'')]\<rparr>
    \<longleftrightarrow> st year = None)"
  by (simp add: api_coverage_year_def isfile_def)

text \<open>The empty dataset of 2026 is covered; 2027 has no dataset.\<close>

theorem coverage_iff_dataset_witness:
  "example_store 2026 = Some []
   \<and> api_coverage_year example_store 2026
       = \<lparr>status_code = 200,
          content = PDict [(''year'', PInt 2026), (''coverage'', PStr ''ok'')]\<rparr>
   \<and> example_store 2027 = None
   \<and> api_coverage_year example_store 2027
       = \<lparr>status_code = 200,
          content = PDict [(''year'', PInt 2027),
                           (''coverage'', PStr ''data not available'')]\<rparr>"
proof -
  have e: "example_store 2026 = Some []" by code_simp
  have n: "example_store 2027 = None" by code_simp
  from e have e': "example_store 2026 \<noteq> None" by simp
  show ?thesis
    using e n coverage_iff_dataset [where st = example_store and year = 2026, THEN conjunct1, THEN iffD2, OF e']
      coverage_iff_dataset [where st = example_store and year = 2027, THEN conjunct2, THEN iffD2, OF n]
    by simp
qed

subsection \<open>The verbose endpoint on an invalid date\<close>

text \<open>
  Claim C9. For a triple that \<^verbatim>\<open>date\<close> rejects, \<^verbatim>\<open>holiday_info\<close> answers with status 400
  and the body \<^verbatim>\<open>{"date": None, "response": {"error": "invalid date"}}\<close>: the date of
  the body is \<^verbatim>\<open>None\<close>, not the components that were sent.
\<close>

theorem holiday_info_invalid_date:
  assumes "date_new year month day = Inl ValueError"
  shows "holiday_info st year month day
           = Inr \<lparr>status_code = 400,
                  content = PDict [(''date'', PNone),
                                   (''response'',
                                    PDict [(''error'', PStr ''invalid date'')])]\<rparr>"
  by (simp add: holiday_info_def get_holiday_info_invalid [where st = st, OF assms])

text \<open>30 February 2025, a covered year, and 31 April 2050, a year without a dataset.\<close>

theorem holiday_info_invalid_date_witness:
  "date_new 2025 2 30 = Inl ValueError
   \<and> holiday_info example_store 2025 2 30
       = Inr \<lparr>status_code = 400,
              content = PDict [(''date'', PNone),
                               (''response'',
                                PDict [(''error'', PStr ''invalid date'')])]\<rparr>
   \<and> date_new 2050 4 31 = Inl ValueError
   \<and> holiday_info example_store 2050 4 31
       = Inr \<lparr>status_code = 400,
              content = PDict [(''date'', PNone),
                               (''response'',
                                PDict [(''error'', PStr ''invalid date'')])]\<rparr>"
proof -
  have a: "date_new 2025 2 30 = Inl ValueError" by code_simp
  have b: "date_new 2050 4 31 = Inl ValueError" by code_simp
  from a b holiday_info_invalid_date [where st = example_store, OF a]
    holiday_info_invalid_date [where st = example_store, OF b]
  show ?thesis by simp
qed

section \<open>Listings\<close>

text \<open>
  Claim C4. For a year with a dataset whose records have a parsable start,
  \<^verbatim>\<open>holidays_list\<close> answers with exactly the records whose start date lies in the asked
  month, in dataset order; the end of a range plays no part, so a range that runs into
  the next month is listed under the month of its start only. When no record starts in
  the month the answer is \<^verbatim>\<open>{"response": "No holidays found for this month"}\<close> and not
  an empty list.
\<close>

theorem holidays_list_by_start_month:
  assumes "st year = Some ds" and "\<forall>h\<in>set ds. parsed h ''start'' \<noteq> None"
  shows "holidays_list st year month =
           Inr \<lparr>status_code = 200,
                content =
                  (if filter (starts_in month) ds = []
                   then PDict [(''response'', PStr ''No holidays found for this month'')]
                   else PDict [(''holidays'',
                                PList (map PDict (filter (starts_in month) ds)))])\<rparr>"
  using assms(1) holidays_in_month_filter [OF assms(2), of month]
  by (simp add: holidays_list_def isfile_def json_load_def)

text \<open>
  All three records of 2025 start in January. The festival season covers 1 February,
  yet February has no holidays in the listing.
\<close>

theorem holidays_list_by_start_month_witness:
  "example_store 2025 = Some data_2025
   \<and> list_all (\<lambda>h. parsed h ''start'' \<noteq> None) data_2025
   \<and> filter (starts_in 1) data_2025 = data_2025
   \<and> holidays_list example_store 2025 1
       = Inr \<lparr>status_code = 200,
              content = PDict [(''holidays'', PList (map PDict data_2025))]\<rparr>
   \<and> covers festival (Date 2025 2 1)
   \<and> filter (starts_in 2) data_2025 = []
   \<and> holidays_list example_store 2025 2
       = Inr \<lparr>status_code = 200,
              content = PDict [(''response'',
                                PStr ''No holidays found for this month'')]\<rparr>"
proof -
  have s: "example_store 2025 = Some data_2025" by code_simp
  have pl: "list_all (\<lambda>h. parsed h ''start'' \<noteq> None) data_2025" by code_simp
  then have p: "\<forall>h\<in>set data_2025. parsed h ''start'' \<noteq> None"
    by (simp add: list_all_iff)
  have f1: "filter (starts_in 1) data_2025 = data_2025" by code_simp
  have ne: "data_2025 \<noteq> []" by code_simp
  have f2: "filter (starts_in 2) data_2025 = []" by code_simp
  have c: "covers festival (Date 2025 2 1)" by code_simp
  show ?thesis
    using s pl f1 f2 c ne
      holidays_list_by_start_month [where st = example_store and month = 1, OF s p]
      holidays_list_by_start_month [where st = example_store and month = 2, OF s p]
    by simp
qed

text \<open>
  Claim C10. When some record starts in the asked month, the list that
  \<^verbatim>\<open>holidays_list\<close> returns is exactly the list of the stored records that start in
  that month, in dataset order, each one the stored dictionary itself with its keys and
  values as stored, in whatever order the file has them. An entry is neither the renamed
  entry that \<^verbatim>\<open>holidays_in_year\<close> builds from the record (which has the key
  \<^verbatim>\<open>holiday\<close>) nor the detail record with derived fields that \<^verbatim>\<open>get_holiday_info\<close>
  builds from it (which has the key \<^verbatim>\<open>is_holiday\<close>), for a stored record without these
  keys.
\<close>

theorem holidays_list_verbatim:
  assumes "st year = Some ds" and "\<forall>h\<in>set ds. parsed h ''start'' \<noteq> None"
    and "filter (starts_in month) ds \<noteq> []"
  shows "holidays_list st year month
           = Inr \<lparr>status_code = 200,
                  content = PDict [(''holidays'',
                                    PList (map PDict (filter (starts_in month) ds)))]\<rparr>
       \<and> (\<forall>h\<in>set (filter (starts_in month) ds).
            (map_of h ''holiday'' = None \<longrightarrow> year_entry h \<noteq> Inr (PDict h))
          \<and> (map_of h ''is_holiday'' = None \<longrightarrow>
               (\<forall>d dp sc. holiday_match d h \<noteq> Inr (Some (dp, sc, h)))))"
proof (intro conjI ballI impI allI)
  show "holidays_list st year month
          = Inr \<lparr>status_code = 200,
                 content = PDict [(''holidays'',
                                   PList (map PDict (filter (starts_in month) ds)))]\<rparr>"
    using assms(1,3) holidays_in_month_filter [OF assms(2), of month]
    by (simp add: holidays_list_def isfile_def json_load_def)
next
  fix h :: pydict assume "map_of h ''holiday'' = None"
  then show "year_entry h \<noteq> Inr (PDict h)"
    using year_entry_renames [of h "PDict h"] by auto
next
  fix h :: pydict and d dp sc assume "map_of h ''is_holiday'' = None"
  then show "holiday_match d h \<noteq> Inr (Some (dp, sc, h))"
    using holiday_match_derives [of d h dp sc h] by auto
qed

text \<open>
  The dataset of 2024: the January listing is the Thai Pongal record alone, with its keys
  in the order of the file, and differs from what the year listing and the date
  resolution make of that record; the March listing is the other record alone.
\<close>

theorem holidays_list_verbatim_witness:
  "store_2024 2024 = Some data_2024
   \<and> list_all (\<lambda>h. parsed h ''start'' \<noteq> None) data_2024
   \<and> filter (starts_in 1) data_2024 = [thai_pongal]
   \<and> holidays_list store_2024 2024 1
       = Inr \<lparr>status_code = 200,
              content = PDict [(''holidays'', PList
                [PDict [(''summary'', PStr ''Thai Pongal''), (''uid'', PStr ''p1''),
                        (''categories'', PList [PStr ''public'']),
                        (''end'', PStr ''2024-01-15''),
                        (''start'', PStr ''2024-01-15'')]])]\<rparr>
   \<and> map_of thai_pongal ''holiday'' = None
   \<and> year_entry thai_pongal
       = Inr (PDict [(''uid'', PStr ''p1''), (''holiday'', PStr ''Thai Pongal''),
                     (''start'', PStr ''2024-01-15''), (''end'', PStr ''2024-01-15''),
                     (''categories'', PList [PStr ''public''])])
   \<and> year_entry thai_pongal \<noteq> Inr (PDict thai_pongal)
   \<and> map_of thai_pongal ''is_holiday'' = None
   \<and> holiday_match (Date 2024 1 15) thai_pongal
       \<noteq> Inr (Some (PDate (Date 2024 1 15), 200, thai_pongal))
   \<and> filter (starts_in 3) data_2024 = [maha_sivarathri]
   \<and> holidays_list store_2024 2024 3
       = Inr \<lparr>status_code = 200,
              content = PDict [(''holidays'', PList [PDict maha_sivarathri])]\<rparr>"
proof -
  have s: "store_2024 2024 = Some data_2024" by code_simp
  have pl: "list_all (\<lambda>h. parsed h ''start'' \<noteq> None) data_2024" by code_simp
  then have p: "\<forall>h\<in>set data_2024. parsed h ''start'' \<noteq> None"
    by (simp add: list_all_iff)
  have f1: "filter (starts_in 1) data_2024 = [thai_pongal]" by code_simp
  have f3: "filter (starts_in 3) data_2024 = [maha_sivarathri]" by code_simp
  have n1: "filter (starts_in 1) data_2024 \<noteq> []" using f1 by simp
  have n3: "filter (starts_in 3) data_2024 \<noteq> []" using f3 by simp
  have h: "map_of thai_pongal ''holiday'' = None" by code_simp
  have i: "map_of thai_pongal ''is_holiday'' = None" by code_simp
  have y: "year_entry thai_pongal
       = Inr (PDict [(''uid'', PStr ''p1''), (''holiday'', PStr ''Thai Pongal''),
                     (''start'', PStr ''2024-01-15''), (''end'', PStr ''2024-01-15''),
                     (''categories'', PList [PStr ''public''])])" by code_simp
  note t1 = holidays_list_verbatim [where st = store_2024 and month = 1, OF s p n1]
  note t3 = holidays_list_verbatim [where st = store_2024 and month = 3, OF s p n3]
  from t1 have l1: "holidays_list store_2024 2024 1
       = Inr \<lparr>status_code = 200,
              content = PDict [(''holidays'', PList [PDict thai_pongal])]\<rparr>"
    by (simp add: f1)
  from t3 have l3: "holidays_list store_2024 2024 3
       = Inr \<lparr>status_code = 200,
              content = PDict [(''holidays'', PList [PDict maha_sivarathri])]\<rparr>"
    by (simp add: f3)
  from t1 h have r: "year_entry thai_pongal \<noteq> Inr (PDict thai_pongal)"
    by (simp add: f1)
  from t1 i have m: "holiday_match (Date 2024 1 15) thai_pongal
       \<noteq> Inr (Some (PDate (Date 2024 1 15), 200, thai_pongal))"
    by (simp add: f1)
  have e: "PDict [(''summary'', PStr ''Thai Pongal''), (''uid'', PStr ''p1''),
                  (''categories'', PList [PStr ''public'']),
                  (''end'', PStr ''2024-01-15''),
                  (''start'', PStr ''2024-01-15'')] = PDict thai_pongal"
    by (simp add: thai_pongal_def)
  show ?thesis
    using s pl f1 f3 l1 l3 h i y r m by (simp add: e)
qed

text \<open>
  Claim C5. For a year with a dataset whose records have the five keys,
  \<^verbatim>\<open>holidays_in_year\<close> answers with one entry per record, in dataset order and none left
  out: entry \<open>i\<close> has the keys \<^verbatim>\<open>uid\<close>, \<^verbatim>\<open>holiday\<close>, \<^verbatim>\<open>start\<close>, \<^verbatim>\<open>end\<close>,
  \<^verbatim>\<open>categories\<close>, where \<^verbatim>\<open>holiday\<close> is the summary of record \<open>i\<close> and the others are its
  fields of the same name.
\<close>

theorem holidays_in_year_every_record:
  assumes "st year = Some ds" and "\<forall>h\<in>set ds. has_fields h"
  shows "\<exists>out. holidays_in_year st year
                 = Inr \<lparr>status_code = 200,
                        content = PDict [(''year'', PInt year), (''holidays'', PList out)]\<rparr>
             \<and> length out = length ds
             \<and> (\<forall>i<length ds. \<exists>uid summary s e c.
                   map_of (ds ! i) ''uid'' = Some uid
                 \<and> map_of (ds ! i) ''summary'' = Some summary
                 \<and> map_of (ds ! i) ''start'' = Some s
                 \<and> map_of (ds ! i) ''end'' = Some e
                 \<and> map_of (ds ! i) ''categories'' = Some c
                 \<and> out ! i = PDict [(''uid'', uid), (''holiday'', summary),
                                     (''start'', s), (''end'', e), (''categories'', c)])"
proof -
  from year_entries_all [OF assms(2)] obtain out where
    out: "year_entries ds = Inr out" and
    rel: "list_all2 (\<lambda>h x. year_entry h = Inr x) ds out"
    by blast
  have "holidays_in_year st year
          = Inr \<lparr>status_code = 200,
                 content = PDict [(''year'', PInt year), (''holidays'', PList out)]\<rparr>"
    using assms(1) out by (simp add: holidays_in_year_def isfile_def json_load_def)
  moreover have "length out = length ds"
    using rel by (simp add: list_all2_lengthD)
  moreover have "\<exists>uid summary s e c.
                   map_of (ds ! i) ''uid'' = Some uid
                 \<and> map_of (ds ! i) ''summary'' = Some summary
                 \<and> map_of (ds ! i) ''start'' = Some s
                 \<and> map_of (ds ! i) ''end'' = Some e
                 \<and> map_of (ds ! i) ''categories'' = Some c
                 \<and> out ! i = PDict [(''uid'', uid), (''holiday'', summary),
                                     (''start'', s), (''end'', e), (''categories'', c)]"
    if i: "i < length ds" for i
  proof -
    from list_all2_nthD [OF rel i] have e: "year_entry (ds ! i) = Inr (out ! i)"
      by simp
    from assms(2) i have "has_fields (ds ! i)" by simp
    from year_entry_fields [OF this] e show ?thesis by auto
  qed
  ultimately show ?thesis by blast
qed

text \<open>The year listing of the dataset of 2025.\<close>

theorem holidays_in_year_every_record_witness:
  "example_store 2025 = Some data_2025
   \<and> list_all has_fields data_2025
   \<and> holidays_in_year example_store 2025
       = Inr \<lparr>status_code = 200,
              content = PDict [(''year'', PInt 2025),
                (''holidays'', PList
                  [PDict [(''uid'', PStr ''h0''), (''holiday'', PStr ''Duruthu Poya''),
                          (''start'', PStr ''2025-01-13''), (''end'', PStr ''2025-01-13''),
                          (''categories'', PList [PStr ''public'', PStr ''bank''])],
                   PDict [(''uid'', PStr ''h1''), (''holiday'', PStr ''New Year''),
                          (''start'', PStr ''2025-01-01''), (''end'', PStr ''2025-01-01''),
                          (''categories'', PList [PStr ''public''])],
                   PDict [(''uid'', PStr ''h2''), (''holiday'', PStr ''Festival season''),
                          (''start'', PStr ''2025-01-01''), (''end'', PStr ''2025-02-02''),
                          (''categories'', PList [])]])]\<rparr>"
proof -
  have s: "example_store 2025 = Some data_2025" by code_simp
  have fl: "list_all has_fields data_2025" by code_simp
  then have f: "\<forall>h\<in>set data_2025. has_fields h"
    by (simp add: list_all_iff)
  from holidays_in_year_every_record [where st = example_store, OF s f]
  obtain out where
    r: "holidays_in_year example_store 2025
          = Inr \<lparr>status_code = 200,
                 content = PDict [(''year'', PInt 2025), (''holidays'', PList out)]\<rparr>" and
    len: "length out = length data_2025" and
    each: "\<forall>i<length data_2025. \<exists>uid summary s e c.
                   map_of (data_2025 ! i) ''uid'' = Some uid
                 \<and> map_of (data_2025 ! i) ''summary'' = Some summary
                 \<and> map_of (data_2025 ! i) ''start'' = Some s
                 \<and> map_of (data_2025 ! i) ''end'' = Some e
                 \<and> map_of (data_2025 ! i) ''categories'' = Some c
                 \<and> out ! i = PDict [(''uid'', uid), (''holiday'', summary),
                                     (''start'', s), (''end'', e), (''categories'', c)]"
    by blast
  have l3: "length data_2025 = 3" by code_simp
  have k0: "data_2025 ! 0 = poya" by (simp add: data_2025_def)
  have k1: "data_2025 ! Suc 0 = new_year" by (simp add: data_2025_def)
  have k2: "data_2025 ! 2 = festival" by (simp add: data_2025_def)
  from each l3 have e0: "out ! 0 = PDict [(''uid'', PStr ''h0''), (''holiday'', PStr ''Duruthu Poya''),
                          (''start'', PStr ''2025-01-13''), (''end'', PStr ''2025-01-13''),
                          (''categories'', PList [PStr ''public'', PStr ''bank''])]"
    by (auto simp: k0 poya_def dest!: spec [of _ 0])
  from each l3 have e1: "out ! 1 = PDict [(''uid'', PStr ''h1''), (''holiday'', PStr ''New Year''),
                          (''start'', PStr ''2025-01-01''), (''end'', PStr ''2025-01-01''),
                          (''categories'', PList [PStr ''public''])]"
    by (auto simp: k1 new_year_def dest!: spec [of _ 1])
  from each l3 have e2: "out ! 2 = PDict [(''uid'', PStr ''h2''), (''holiday'', PStr ''Festival season''),
                          (''start'', PStr ''2025-01-01''), (''end'', PStr ''2025-02-02''),
                          (''categories'', PList [])]"
    by (auto simp: k2 festival_def dest!: spec [of _ 2])
  from len l3 obtain a b c where "out = [a, b, c]"
    by (auto simp: numeral_3_eq_3 length_Suc_conv)
  with e0 e1 e2 r s fl show ?thesis by simp
qed

section \<open>The strict endpoint\<close>

text \<open>
  Claim C7. \<^verbatim>\<open>check_holiday\<close> presents the outcome of \<^verbatim>\<open>get_holiday_info\<close> as follows.
  An error outcome is wrapped, \<^verbatim>\<open>{"response": {"error": ...}}\<close>, with its status: 400
  for a triple that is no calendar date, 404 for a date in a year without a dataset.
  For a date in a covered year of well-formed records that no record covers, the status
  is 200 and the body is \<^verbatim>\<open>{"date": date, "response": False}\<close>. For a date whose first
  covering record is record \<open>i\<close>, the status is 200 and the body is the detail record
  itself, unwrapped, with the fields \<^verbatim>\<open>day\<close>, \<^verbatim>\<open>week\<close>, \<^verbatim>\<open>month\<close>, \<^verbatim>\<open>is_holiday\<close>,
  \<^verbatim>\<open>id\<close>, \<^verbatim>\<open>holiday\<close>, \<^verbatim>\<open>categories\<close>, \<^verbatim>\<open>holiday_start\<close>, \<^verbatim>\<open>holiday_end\<close>.
\<close>

theorem check_holiday_presentation:
  "(date_new year month day = Inl ValueError \<longrightarrow>
      check_holiday st year month day
        = Inr \<lparr>status_code = 400,
               content = PDict [(''response'',
                                 PDict [(''error'', PStr ''invalid date'')])]\<rparr>)
   \<and> (\<forall>d. date_new year month day = Inr d \<longrightarrow>
        (st year = None \<longrightarrow>
           check_holiday st year month day
             = Inr \<lparr>status_code = 404,
                    content = PDict [(''response'',
                      PDict [(''error'', PStr ''requested year not available'')])]\<rparr>)
      \<and> (\<forall>ds. st year = Some ds \<and> (\<forall>h\<in>set ds. well_formed h) \<longrightarrow>
           ((\<forall>h\<in>set ds. \<not> covers h d) \<longrightarrow>
              check_holiday st year month day
                = Inr \<lparr>status_code = 200,
                       content = PDict [(''date'', PDate d),
                                        (''response'', PBool False)]\<rparr>)
         \<and> (\<forall>i<length ds. covers (ds ! i) d \<and> (\<forall>j<i. \<not> covers (ds ! j) d) \<longrightarrow>
              (\<exists>uid summary categories s e.
                 map_of (ds ! i) ''uid'' = Some uid
               \<and> map_of (ds ! i) ''summary'' = Some summary
               \<and> map_of (ds ! i) ''categories'' = Some categories
               \<and> map_of (ds ! i) ''start'' = Some s
               \<and> map_of (ds ! i) ''end'' = Some e
               \<and> check_holiday st year month day
                   = Inr \<lparr>status_code = 200,
                          content = PDict
                            [(''day'', PStr (strftime_A d)),
                             (''week'', PStr (strftime_W d)),
                             (''month'', PStr (strftime_B d)),
                             (''is_holiday'', PBool True),
                             (''id'', uid), (''holiday'', summary),
                             (''categories'', categories),
                             (''holiday_start'', s), (''holiday_end'', e)]\<rparr>))))"
proof (intro conjI allI impI)
  assume "date_new year month day = Inl ValueError"
  from get_holiday_info_invalid [where st = st, OF this]
  show "check_holiday st year month day
        = Inr \<lparr>status_code = 400,
               content = PDict [(''response'',
                                 PDict [(''error'', PStr ''invalid date'')])]\<rparr>"
    by (simp add: check_holiday_error)
next
  fix d
  assume "date_new year month day = Inr d" and "st year = None"
  from get_holiday_info_no_year [where st = st, OF this]
  show "check_holiday st year month day
             = Inr \<lparr>status_code = 404,
                    content = PDict [(''response'',
                      PDict [(''error'', PStr ''requested year not available'')])]\<rparr>"
    by (simp add: check_holiday_error)
next
  fix d ds
  assume v: "date_new year month day = Inr d"
    and s: "st year = Some ds \<and> (\<forall>h\<in>set ds. well_formed h)"
    and n: "\<forall>h\<in>set ds. \<not> covers h d"
  have g: "get_holiday_info st year month day = scan_holidays d ds"
    using v s by (simp add: get_holiday_info_scan [where st = st])
  from s n have "\<forall>h\<in>set ds. well_formed h \<and> \<not> covers h d" by simp
  from scan_none [OF this] g
  have "get_holiday_info st year month day
          = Inr (PDate d, 200, [(''is_holiday'', PBool False)])"
    by simp
  from check_holiday_ok [OF this, of False]
  show "check_holiday st year month day
                = Inr \<lparr>status_code = 200,
                       content = PDict [(''date'', PDate d),
                                        (''response'', PBool False)]\<rparr>"
    by simp
next
  fix d ds i
  assume v: "date_new year month day = Inr d"
    and s: "st year = Some ds \<and> (\<forall>h\<in>set ds. well_formed h)"
    and i: "i < length ds"
    and c: "covers (ds ! i) d \<and> (\<forall>j<i. \<not> covers (ds ! j) d)"
  have g: "get_holiday_info st year month day = scan_holidays d ds"
    using v s by (simp add: get_holiday_info_scan [where st = st])
  from s have wf: "\<forall>h\<in>set ds. well_formed h" by simp
  from c have c1: "covers (ds ! i) d" and c2: "\<forall>j<i. \<not> covers (ds ! j) d"
    by simp_all
  from scan_first [OF wf i c1 c2] obtain uid summary categories s e where
    k: "map_of (ds ! i) ''uid'' = Some uid" "map_of (ds ! i) ''summary'' = Some summary"
       "map_of (ds ! i) ''categories'' = Some categories"
       "map_of (ds ! i) ''start'' = Some s" "map_of (ds ! i) ''end'' = Some e" and
    r: "scan_holidays d ds =
             Inr (PDate d, 200,
               [(''day'', PStr (strftime_A d)), (''week'', PStr (strftime_W d)),
                (''month'', PStr (strftime_B d)), (''is_holiday'', PBool True),
                (''id'', uid), (''holiday'', summary), (''categories'', categories),
                (''holiday_start'', s), (''holiday_end'', e)])"
    by blast
  from r g have "get_holiday_info st year month day =
             Inr (PDate d, 200,
               [(''day'', PStr (strftime_A d)), (''week'', PStr (strftime_W d)),
                (''month'', PStr (strftime_B d)), (''is_holiday'', PBool True),
                (''id'', uid), (''holiday'', summary), (''categories'', categories),
                (''holiday_start'', s), (''holiday_end'', e)])"
    by simp
  from check_holiday_ok [OF this, of True]
  have "check_holiday st year month day
                   = Inr \<lparr>status_code = 200,
                          content = PDict
                            [(''day'', PStr (strftime_A d)),
                             (''week'', PStr (strftime_W d)),
                             (''month'', PStr (strftime_B d)),
                             (''is_holiday'', PBool True),
                             (''id'', uid), (''holiday'', summary),
                             (''categories'', categories),
                             (''holiday_start'', s), (''holiday_end'', e)]\<rparr>"
    by simp
  with k show "\<exists>uid summary categories s e.
                 map_of (ds ! i) ''uid'' = Some uid
               \<and> map_of (ds ! i) ''summary'' = Some summary
               \<and> map_of (ds ! i) ''categories'' = Some categories
               \<and> map_of (ds ! i) ''start'' = Some s
               \<and> map_of (ds ! i) ''end'' = Some e
               \<and> check_holiday st year month day
                   = Inr \<lparr>status_code = 200,
                          content = PDict
                            [(''day'', PStr (strftime_A d)),
                             (''week'', PStr (strftime_W d)),
                             (''month'', PStr (strftime_B d)),
                             (''is_holiday'', PBool True),
                             (''id'', uid), (''holiday'', summary),
                             (''categories'', categories),
                             (''holiday_start'', s), (''holiday_end'', e)]\<rparr>"
    by blast
qed

text \<open>
  The four cases on the example store: 30 February 2025, 1 January 2050, 3 March 2025
  and the Poya day of 13 January 2025.
\<close>

theorem check_holiday_presentation_witness:
  "date_new 2025 2 30 = Inl ValueError
   \<and> check_holiday example_store 2025 2 30
       = Inr \<lparr>status_code = 400,
              content = PDict [(''response'',
                                PDict [(''error'', PStr ''invalid date'')])]\<rparr>
   \<and> date_new 2050 1 1 = Inr (Date 2050 1 1)
   \<and> example_store 2050 = None
   \<and> check_holiday example_store 2050 1 1
       = Inr \<lparr>status_code = 404,
              content = PDict [(''response'',
                PDict [(''error'', PStr ''requested year not available'')])]\<rparr>
   \<and> date_new 2025 3 3 = Inr (Date 2025 3 3)
   \<and> example_store 2025 = Some data_2025
   \<and> list_all well_formed data_2025
   \<and> list_all (\<lambda>h. \<not> covers h (Date 2025 3 3)) data_2025
   \<and> check_holiday example_store 2025 3 3
       = Inr \<lparr>status_code = 200,
              content = PDict [(''date'', PDate (Date 2025 3 3)),
                               (''response'', PBool False)]\<rparr>
   \<and> date_new 2025 1 13 = Inr (Date 2025 1 13)
   \<and> covers (data_2025 ! 0) (Date 2025 1 13)
   \<and> check_holiday example_store 2025 1 13
       = Inr \<lparr>status_code = 200,
              content = PDict
                [(''day'', PStr ''Monday''), (''week'', PStr ''02''),
                 (''month'', PStr ''January''), (''is_holiday'', PBool True),
                 (''id'', PStr ''h0''), (''holiday'', PStr ''Duruthu Poya''),
                 (''categories'', PList [PStr ''public'', PStr ''bank'']),
                 (''holiday_start'', PStr ''2025-01-13''),
                 (''holiday_end'', PStr ''2025-01-13'')]\<rparr>"
proof -
  have i: "date_new 2025 2 30 = Inl ValueError" by code_simp
  have v1: "date_new 2050 1 1 = Inr (Date 2050 1 1)" by code_simp
  have v2: "date_new 2025 3 3 = Inr (Date 2025 3 3)" by code_simp
  have v3: "date_new 2025 1 13 = Inr (Date 2025 1 13)" by code_simp
  have n: "example_store 2050 = None" by code_simp
  have s: "example_store 2025 = Some data_2025" by code_simp
  have wfl: "list_all well_formed data_2025" by code_simp
  then have wf: "\<forall>h\<in>set data_2025. well_formed h" by (simp add: list_all_iff)
  have ncl: "list_all (\<lambda>h. \<not> covers h (Date 2025 3 3)) data_2025" by code_simp
  then have nc: "\<forall>h\<in>set data_2025. \<not> covers h (Date 2025 3 3)" by (simp add: list_all_iff)
  have c: "covers (data_2025 ! 0) (Date 2025 1 13)" by code_simp
  have l: "0 < length data_2025" by code_simp
  have k: "data_2025 ! 0 = poya" by (simp add: data_2025_def)
  have a: "strftime_A (Date 2025 1 13) = ''Monday''" by code_simp
  have w: "strftime_W (Date 2025 1 13) = ''02''" by code_simp
  have b: "strftime_B (Date 2025 1 13) = ''January''" by code_simp
  note t1 = check_holiday_presentation [where st = example_store and year = 2025
      and month = 2 and day = 30, THEN conjunct1, rule_format, OF i]
  note t2 = check_holiday_presentation [where st = example_store and year = 2050
      and month = 1 and day = 1, THEN conjunct2, rule_format, OF v1, THEN conjunct1,
      rule_format, OF n]
  note t3 = check_holiday_presentation [where st = example_store and year = 2025
      and month = 3 and day = 3, THEN conjunct2, rule_format, OF v2, THEN conjunct2,
      rule_format, OF conjI [OF s wf], THEN conjunct1, rule_format, OF nc [rule_format]]
  have first: "covers (data_2025 ! 0) (Date 2025 1 13)
      \<and> (\<forall>j<0. \<not> covers (data_2025 ! j) (Date 2025 1 13))"
    using c by simp
  note t4 = check_holiday_presentation [where st = example_store and year = 2025
      and month = 1 and day = 13, THEN conjunct2, rule_format, OF v3, THEN conjunct2,
      rule_format, OF conjI [OF s wf], THEN conjunct2, rule_format, OF l first]
  from t4 have t4': "check_holiday example_store 2025 1 13
       = Inr \<lparr>status_code = 200,
              content = PDict
                [(''day'', PStr ''Monday''), (''week'', PStr ''02''),
                 (''month'', PStr ''January''), (''is_holiday'', PBool True),
                 (''id'', PStr ''h0''), (''holiday'', PStr ''Duruthu Poya''),
                 (''categories'', PList [PStr ''public'', PStr ''bank'']),
                 (''holiday_start'', PStr ''2025-01-13''),
                 (''holiday_end'', PStr ''2025-01-13'')]\<rparr>"
    by (auto simp: k poya_def a w b)
  show ?thesis
    using i v1 v2 v3 n s wfl ncl c t1 t2 t3 t4' by simp
qed

section \<open>The detail record of a holiday\<close>



end
